theory Spec2Isabelle
  imports Main
begin

section \<open>Values, errors and collaborators\<close>

text \<open>
  The module \<^verbatim>\<open>saspy/sasiocom.py\<close> drives a remote SAS workspace through COM objects.
  Python values that reach the configuration object are modelled by \<open>pyval\<close>; an object
  the module only passes around (the kernel, the prompt function) is \<open>PyObj\<close>, carrying
  the text that \<^verbatim>\<open>str()\<close> gives for it. Text is ASCII: a \<open>string\<close> is a list of
  8-bit characters, and so is a byte string.
\<close>

datatype pyval = PyNone | PyBool bool | PyInt int | PyStr string | PyObj string

datatype error =
    NameError | KeyboardInterrupt | AttributeError | KeyError
  | TypeError | OverflowError | OSError | ValueError

type_synonym bytes = "char list"

fun digits10 :: "nat \<Rightarrow> string" where
  "digits10 n =
     (if n < 10 then [''0123456789'' ! n]
      else digits10 (n div 10) @ [''0123456789'' ! (n mod 10)])"

declare digits10.simps [simp del]

text \<open>\<^verbatim>\<open>'{}'.format(x)\<close> renders \<open>x\<close> with \<^verbatim>\<open>str\<close>.\<close>

fun py_str :: "pyval \<Rightarrow> string" where
  "py_str PyNone = ''None''"
| "py_str (PyBool b) = (if b then ''True'' else ''False'')"
| "py_str (PyInt i) = (if i < 0 then ''-'' @ digits10 (nat (- i)) else digits10 (nat i))"
| "py_str (PyStr s) = s"
| "py_str (PyObj s) = s"

text \<open>\<^verbatim>\<open>str.lower()\<close> on ASCII text.\<close>

definition lower_char :: "char \<Rightarrow> char" where
  "lower_char c =
     (case map_of (zip ''ABCDEFGHIJKLMNOPQRSTUVWXYZ'' ''abcdefghijklmnopqrstuvwxyz'') c of
        None \<Rightarrow> c
      | Some l \<Rightarrow> l)"

definition lower :: "string \<Rightarrow> string" where
  "lower s = map lower_char s"

text \<open>
  \<^verbatim>\<open>str.replace(old, new)\<close>: every occurrence of \<open>old\<close>, left to right, without
  overlap. The module calls it with non-empty \<open>old\<close> only; for an empty \<open>old\<close> (where
  Python inserts \<open>new\<close> between all characters) this function returns the text as it is.
\<close>

function str_replace :: "string \<Rightarrow> string \<Rightarrow> string \<Rightarrow> string" where
  "str_replace old new [] = []"
| "str_replace old new (c # cs) =
     (if old \<noteq> [] \<and> take (length old) (c # cs) = old
      then new @ str_replace old new (drop (length old) (c # cs))
      else c # str_replace old new cs)"
  by pat_completeness auto
termination
  by (relation "measure (\<lambda>(old, new, s). length s)") auto

section \<open>The stream pump\<close>

text \<open>
  A read handle (the log channel, the listing channel, a binary stream on a remote file)
  is modelled by the chunks it yields to successive reads, in order. What the handle
  yields for a request of \<open>buf\<close> units is its own business, so the buffer size does not
  appear in the model. A handle with no chunk left yields the empty chunk (end of stream).
\<close>

type_synonym 'a channel = "'a list list"

definition read_chunk :: "'a channel \<Rightarrow> 'a list \<times> 'a channel" where
  "read_chunk ch = (case ch of [] \<Rightarrow> ([], []) | c # cs \<Rightarrow> (c, cs))"

text \<open>
  The loop of \<^verbatim>\<open>_getlst\<close>, \<^verbatim>\<open>_getlog\<close> and \<^verbatim>\<open>_getfile\<close>, which the source writes
  out three times:
  \<^verbatim>\<open>
    flushed = <read>(buf)
    result = flushed
    while flushed:
        flushed = <read>(buf)
        result += flushed
  \<close>
\<close>

function drain_loop :: "'a list \<Rightarrow> 'a list \<Rightarrow> 'a channel \<Rightarrow> 'a list \<times> 'a channel" where
  "drain_loop flushed result ch =
     (if flushed \<noteq> []
      then (case read_chunk ch of (flushed', ch') \<Rightarrow> drain_loop flushed' (result @ flushed') ch')
      else (result, ch))"
  by pat_completeness auto
termination
  by (relation "measure (\<lambda>(flushed, result, ch). 2 * length ch + (if flushed \<noteq> [] then 1 else 0))")
     (auto simp: read_chunk_def split: list.splits)

declare drain_loop.simps [simp del]

definition drain :: "'a channel \<Rightarrow> 'a list \<times> 'a channel" where
  "drain ch = (case read_chunk ch of (flushed, ch') \<Rightarrow> drain_loop flushed flushed ch')"

section \<open>The remote workspace\<close>

text \<open>
  The workspace is a COM object of the SAS server. The model keeps what the module can
  observe of it: the calls that \<open>LanguageService\<close> has received that act on the parser
  (\<open>Submit\<close> with its program text, \<open>Reset\<close>), the engine's own state (whether the
  parser is in its error state, the program texts it has taken, the pending chunks of
  the log and listing channels, the chunks a binary read stream yields for each remote
  file), and the writes that \<open>FileService\<close> write streams have received (path,
  permission option, content).

  What the engine does with a submitted program is not in the module: it is the parameter
  \<open>react\<close> of the environment below, any function on the engine's state. \<open>Reset\<close>
  clears the parser's error state, as the docstring of \<^verbatim>\<open>_reset\<close> says. Calls on
  COM objects are taken to return; a transport failure is outside the model.
\<close>

datatype ls_call = Submit string | Reset

record engine =
  parser_error :: bool
  accepted :: "string list"
  log_chan :: "char channel"
  lst_chan :: "char channel"
  remote_files :: "string \<Rightarrow> char channel"

record workspace =
  UniqueIdentifier :: string
  ls_calls :: "ls_call list"
  eng :: engine
  stream_writes :: "(string \<times> string \<times> bytes) list"

text \<open>
  A value in a cell of a recordset. SAS numbers arrive as numbers; the model has the
  integers among them (floating point is outside it). A datetime is the number of
  microseconds since \<^verbatim>\<open>datetime.min\<close> (0001-01-01T00:00:00).
\<close>

datatype cell = CNull | CInt int | CStr string | CDatetime int

text \<open>The \<open>ServerDef\<close> object that \<^verbatim>\<open>_startsas\<close> fills in.\<close>

record server_def =
  MachineDNSName :: pyval
  Port :: pyval
  Protocol :: int
  ClassIdentifier :: "pyval option"

text \<open>
  The collaborators whose behaviour is not in the module: the engine's reaction to a
  submitted program, the codec of \<^verbatim>\<open>bytes.decode\<close>, the rows (each a list of field
  names and values) that the connection's \<open>OpenSchema\<close> returns for a table path, the
  workspace that the object factory creates (given how many it has created before),
  and \<^verbatim>\<open>os.path.basename\<close> and \<^verbatim>\<open>os.path.join\<close> of the client's platform.
\<close>

record env =
  react :: "string \<Rightarrow> engine \<Rightarrow> engine"
  decode :: "pyval \<Rightarrow> bytes \<Rightarrow> string"
  OpenSchema :: "string \<Rightarrow> (string \<times> cell) list list"
  CreateObjectByServer :: "nat \<Rightarrow> server_def \<Rightarrow> pyval \<Rightarrow> pyval \<Rightarrow> workspace"
  os_path_basename :: "string \<Rightarrow> string"
  os_path_join :: "string \<Rightarrow> string \<Rightarrow> string"

definition LanguageService_Submit :: "env \<Rightarrow> string \<Rightarrow> workspace \<Rightarrow> workspace" where
  "LanguageService_Submit E text w =
     w\<lparr>ls_calls := ls_calls w @ [Submit text], eng := react E text (eng w)\<rparr>"

definition LanguageService_Reset :: "workspace \<Rightarrow> workspace" where
  "LanguageService_Reset w =
     w\<lparr>ls_calls := ls_calls w @ [Reset], eng := (eng w)\<lparr>parser_error := False\<rparr>\<rparr>"

section \<open>The session object\<close>

text \<open>
  \<open>SASSessionCOM\<close>: its configuration object (an open set of attributes, since
  \<^verbatim>\<open>setattr\<close> may add any name), the running log \<^verbatim>\<open>_log\<close>, and the attributes
  \<^verbatim>\<open>workspace\<close>, \<^verbatim>\<open>keeper\<close> and \<^verbatim>\<open>adodb\<close>, absent until \<^verbatim>\<open>_startsas\<close> sets them.
\<close>

type_synonym config = "string \<rightharpoonup> pyval"

record connection =
  State :: int
  data_source :: string

record session =
  sascfg :: config
  session_log :: string
  workspace :: "workspace option"
  keeper :: "(int \<times> string \<times> string) list option"
  adodb :: "connection option"

definition cfg_get :: "config \<Rightarrow> string \<Rightarrow> error + pyval" where
  "cfg_get c name = (case c name of None \<Rightarrow> Inl AttributeError | Some v \<Rightarrow> Inr v)"

text \<open>
  The owning \<open>SASsession\<close> (\<^verbatim>\<open>self._sb\<close>) is defined outside this module; the module
  reads these attributes of it. \<^verbatim>\<open>file_info\<close> returns \<^verbatim>\<open>None\<close> for a path
  that does not exist, the empty dictionary for a directory, and a dictionary of
  attributes for a file.
\<close>

record sb =
  workpath :: string
  HTML_Style :: string
  hostsep :: string
  sas_date_fmts :: "string list"
  sas_datetime_fmts :: "string list"
  SAS_EPOCH :: int
  file_info :: "string \<Rightarrow> (string \<times> string) list option"
  tablepath :: "string \<Rightarrow> string option \<Rightarrow> string"

subsection \<open>Log, listing and file retrieval\<close>

definition getlst :: "session \<Rightarrow> (error + string) \<times> session" where
  "getlst s =
     (case workspace s of
        None \<Rightarrow> (Inl AttributeError, s)
      | Some w \<Rightarrow>
          (case drain (lst_chan (eng w)) of
             (result, ch') \<Rightarrow>
               (Inr result, s\<lparr>workspace := Some (w\<lparr>eng := (eng w)\<lparr>lst_chan := ch'\<rparr>\<rparr>)\<rparr>)))"

definition getlog :: "session \<Rightarrow> (error + string) \<times> session" where
  "getlog s =
     (case workspace s of
        None \<Rightarrow> (Inl AttributeError, s)
      | Some w \<Rightarrow>
          (case drain (log_chan (eng w)) of
             (result, ch') \<Rightarrow>
               (Inr result,
                s\<lparr>workspace := Some (w\<lparr>eng := (eng w)\<lparr>log_chan := ch'\<rparr>\<rparr>),
                  session_log := session_log s @ result\<rparr>)))"

text \<open>
  \<^verbatim>\<open>_getfile\<close> opens a fresh binary read stream on the file, drains it and closes it;
  the remote file is not changed. With \<^verbatim>\<open>decode=True\<close> the bytes are decoded with the
  configured encoding and \<^verbatim>\<open>errors='replace'\<close>.
\<close>

definition getfile_bytes :: "session \<Rightarrow> string \<Rightarrow> error + bytes" where
  "getfile_bytes s fname =
     (case workspace s of
        None \<Rightarrow> Inl AttributeError
      | Some w \<Rightarrow> Inr (fst (drain (remote_files (eng w) fname))))"

definition getfile_decoded :: "env \<Rightarrow> session \<Rightarrow> string \<Rightarrow> error + string" where
  "getfile_decoded E s fname =
     (case getfile_bytes s fname of
        Inl e \<Rightarrow> Inl e
      | Inr result \<Rightarrow>
          (case cfg_get (sascfg s) ''encoding'' of
             Inl e \<Rightarrow> Inl e
           | Inr enc \<Rightarrow> Inr (decode E enc result)))"

subsection \<open>Code submission\<close>

definition HTML_RESULT_FILE :: string where
  "HTML_RESULT_FILE = ''saspy_results.html''"

definition gethtmlfn :: "sb \<Rightarrow> string" where
  "gethtmlfn b = workpath b @ HTML_RESULT_FILE"

definition reset :: "session \<Rightarrow> (error + unit) \<times> session" where
  "reset s =
     (case workspace s of
        None \<Rightarrow> (Inl AttributeError, s)
      | Some w \<Rightarrow> (Inr (), s\<lparr>workspace := Some (LanguageService_Reset w)\<rparr>))"

text \<open>
  \<^verbatim>\<open>_prompt\<close> asks the configuration's prompt function until it returns a non-empty
  value; \<^verbatim>\<open>None\<close> (the user cancelled) raises \<^verbatim>\<open>KeyboardInterrupt\<close>. The user's
  answers are the sequence \<open>answers\<close>, read from position \<open>i\<close>; the loop need not
  end, so the result is an option. The position after the last answer read is returned
  with the result.
\<close>

partial_function (option) prompt ::
  "(nat \<Rightarrow> string option) \<Rightarrow> nat \<Rightarrow> string \<Rightarrow> ((error + string \<times> string) \<times> nat) option" where
  "prompt answers i key =
     (case answers i of
        None \<Rightarrow> Some (Inl KeyboardInterrupt, Suc i)
      | Some val \<Rightarrow>
          if val \<noteq> [] then Some (Inr (key, val), Suc i)
          else prompt answers (Suc i) key)"

definition ods_open :: "pyval \<Rightarrow> string \<Rightarrow> string \<Rightarrow> string" where
  "ods_open output htmlfn style =
     ''\<newline>                ods listing close;\<newline>                ods ''
     @ py_str output
     @ '' (id=saspy_internal) options(bitmap_mode='inline')\<newline>                    file=\"''
     @ htmlfn
     @ ''\"\<newline>                    device=svg\<newline>                    style=''
     @ style
     @ '';\<newline>                ods graphics on / outputfmt=png;\<newline>            ''"

definition ods_close :: "pyval \<Rightarrow> string" where
  "ods_close output =
     ''\<newline>                ods ''
     @ py_str output
     @ '' (id=saspy_internal) close;\<newline>                ods listing;\<newline>            ''"

text \<open>
  \<^verbatim>\<open>_asubmit\<close> wraps whatever program text it is given when the result format,
  lower-cased, is \<^verbatim>\<open>html\<close>, and hands the whole to \<^verbatim>\<open>LanguageService.Submit\<close>.
\<close>

definition asubmit :: "env \<Rightarrow> sb \<Rightarrow> session \<Rightarrow> string \<Rightarrow> string \<Rightarrow> (error + unit) \<times> session" where
  "asubmit E b s code results =
     (case (if lower results = ''html''
            then (case cfg_get (sascfg s) ''output'' of
                    Inl e \<Rightarrow> Inl e
                  | Inr output \<Rightarrow>
                      Inr (ods_open output (gethtmlfn b) (HTML_Style b), ods_close output))
            else Inr ('''', '''')) of
        Inl e \<Rightarrow> (Inl e, s)
      | Inr (ods_open_text, ods_close_text) \<Rightarrow>
          (let full_code = ods_open_text @ code @ ods_close_text
           in case workspace s of
                None \<Rightarrow> (Inl AttributeError, s)
              | Some w \<Rightarrow> (Inr (), s\<lparr>workspace := Some (LanguageService_Submit E full_code w)\<rparr>)))"

definition RESET :: string where
  "RESET = '';*';*\";*/;quit;run;''"

text \<open>
  The loop over \<^verbatim>\<open>prompt.items()\<close> in \<^verbatim>\<open>submit\<close>:
  \<^verbatim>\<open>
    for key, value in prompt.items():
        macro_declare += '%let {} = {};\n'.format(*self._prompt(key, val))
  \<close>
  The second argument of the call is the name \<^verbatim>\<open>val\<close>, which is bound nowhere (the
  loop variable is \<^verbatim>\<open>value\<close>, and the module has no global of that name), so
  evaluating the arguments raises \<^verbatim>\<open>NameError\<close> in the first iteration, before
  \<^verbatim>\<open>_prompt\<close> is entered.
\<close>

fun macro_declare_loop :: "(string \<times> pyval) list \<Rightarrow> string \<Rightarrow> error + string" where
  "macro_declare_loop [] macro_declare = Inr macro_declare"
| "macro_declare_loop ((key, value) # rest) macro_declare = Inl NameError"

definition listing_fixups :: "string \<Rightarrow> string" where
  "listing_fixups text =
     str_replace ''font-size: x-small;'' ''font-size: normal;''
       (str_replace ''<body class=\"c body\">'' ''<body class=\"l body\">''
          (str_replace [CHR 0x0C] [CHR 0x0A] text))"

text \<open>
  \<^verbatim>\<open>submit\<close> returns the dictionary \<^verbatim>\<open>{'LOG': log, 'LST': listing}\<close>. An exception
  leaves the session as it was when it was raised. A \<^verbatim>\<open>prompt\<close> of \<^verbatim>\<open>None\<close> is the
  empty dictionary.
\<close>

definition submit ::
  "env \<Rightarrow> sb \<Rightarrow> session \<Rightarrow> string \<Rightarrow> string \<Rightarrow> (string \<times> pyval) list
     \<Rightarrow> (error + (string \<times> string) list) \<times> session" where
  "submit E b s code results prompts =
     (case macro_declare_loop prompts '''' of
        Inl e \<Rightarrow> (Inl e, s)
      | Inr macro_declare \<Rightarrow>
          (case asubmit E b s (RESET @ macro_declare @ code @ RESET) results of
             (Inl e, s1) \<Rightarrow> (Inl e, s1)
           | (Inr u, s1) \<Rightarrow>
               (case getlog s1 of
                  (Inl e, s2) \<Rightarrow> (Inl e, s2)
                | (Inr log, s2) \<Rightarrow>
                    (case (if lower results = ''html''
                           then (case getfile_decoded E s2 (gethtmlfn b) of
                                   Inl e \<Rightarrow> (Inl e, s2)
                                 | Inr text \<Rightarrow> (Inr (listing_fixups text), s2))
                           else getlst s2) of
                       (Inl e, s3) \<Rightarrow> (Inl e, s3)
                     | (Inr listing, s3) \<Rightarrow>
                         (case reset s3 of
                            (Inl e, s4) \<Rightarrow> (Inl e, s4)
                          | (Inr u', s4) \<Rightarrow>
                              (Inr [(''LOG'', log), (''LST'', listing)], s4))))))"

text \<open>
  The unit of program text as the specification describes it: sentinel, macro preamble,
  the code (wrapped for the rich-output mode), sentinel.
\<close>

definition spec_unit :: "sb \<Rightarrow> pyval \<Rightarrow> string \<Rightarrow> string \<Rightarrow> string \<Rightarrow> string" where
  "spec_unit b output macro_declare code results =
     RESET @ macro_declare
     @ (if lower results = ''html''
        then ods_open output (gethtmlfn b) (HTML_Style b) @ code @ ods_close output
        else code)
     @ RESET"

text \<open>
  An engine as the docstring of \<^verbatim>\<open>_reset\<close> describes it: program text that is invalid
  or incomplete puts the parser into an error state, and in that state the parser takes
  no further program text until it is reset. \<open>well_formed\<close> says which program texts
  the parser accepts as valid; \<open>accepted\<close> collects the texts it has taken.
\<close>

definition parser_engine :: "(string \<Rightarrow> bool) \<Rightarrow> string \<Rightarrow> engine \<Rightarrow> engine" where
  "parser_engine well_formed text e =
     (if parser_error e then e
      else e\<lparr>parser_error := \<not> well_formed text, accepted := accepted e @ [text]\<rparr>)"

subsection \<open>Schema and value conversion\<close>

text \<open>
  \<^verbatim>\<open>datetime.timedelta(days=x)\<close> and \<^verbatim>\<open>datetime.timedelta(seconds=x)\<close>, in
  microseconds: a value that is not a number raises \<^verbatim>\<open>TypeError\<close>, and more than
  999999999 days either way raises \<^verbatim>\<open>OverflowError\<close>. Adding a timedelta to a datetime
  raises \<^verbatim>\<open>OverflowError\<close> when the sum leaves the years 1 to 9999.
\<close>

definition timedelta_days :: "cell \<Rightarrow> error + int" where
  "timedelta_days x =
     (case x of
        CInt n \<Rightarrow>
          if - 999999999 \<le> n \<and> n \<le> 999999999 then Inr (n * 86400000000)
          else Inl OverflowError
      | _ \<Rightarrow> Inl TypeError)"

definition timedelta_seconds :: "cell \<Rightarrow> error + int" where
  "timedelta_seconds x =
     (case x of
        CInt n \<Rightarrow>
          if - 999999999 \<le> n div 86400 \<and> n div 86400 \<le> 999999999 then Inr (n * 1000000)
          else Inl OverflowError
      | _ \<Rightarrow> Inl TypeError)"

definition datetime_add :: "int \<Rightarrow> int \<Rightarrow> error + cell" where
  "datetime_add t delta =
     (if 0 \<le> t + delta \<and> t + delta < 3652059 * 86400000000 then Inr (CDatetime (t + delta))
      else Inl OverflowError)"

text \<open>The three conversion functions that \<^verbatim>\<open>_schema\<close> stores under \<^verbatim>\<open>CONVERT\<close>.\<close>

definition convert_date :: "sb \<Rightarrow> cell \<Rightarrow> error + cell" where
  "convert_date b x =
     (case timedelta_days x of Inl e \<Rightarrow> Inl e | Inr delta \<Rightarrow> datetime_add (SAS_EPOCH b) delta)"

definition convert_datetime :: "sb \<Rightarrow> cell \<Rightarrow> error + cell" where
  "convert_datetime b x =
     (case timedelta_seconds x of Inl e \<Rightarrow> Inl e | Inr delta \<Rightarrow> datetime_add (SAS_EPOCH b) delta)"

definition convert_identity :: "cell \<Rightarrow> error + cell" where
  "convert_identity x = Inr x"

text \<open>\<^verbatim>\<open>value in names\<close> for a tuple of strings.\<close>

definition cell_in :: "cell \<Rightarrow> string list \<Rightarrow> bool" where
  "cell_in v names = (case v of CStr f \<Rightarrow> f \<in> set names | _ \<Rightarrow> False)"

text \<open>
  The metadata record of a column: the fields of the schema row, and the conversion
  function (which the source stores in the same dictionary under \<^verbatim>\<open>CONVERT\<close>).
\<close>

record column =
  info :: "string \<rightharpoonup> cell"
  CONVERT :: "cell \<Rightarrow> error + cell"

fun schema_loop ::
  "sb \<Rightarrow> (string \<times> cell) list list \<Rightarrow> (cell \<rightharpoonup> column) \<Rightarrow> error + (cell \<rightharpoonup> column)" where
  "schema_loop b [] metadata = Inr metadata"
| "schema_loop b (row # rest) metadata =
     (let col_info = map_of (rev row)
      in case col_info ''FORMAT_NAME'' of
           None \<Rightarrow> Inl KeyError
         | Some fmt \<Rightarrow>
             (let conv = (if cell_in fmt (sas_date_fmts b) then convert_date b
                          else if cell_in fmt (sas_datetime_fmts b) then convert_datetime b
                          else convert_identity)
              in case col_info ''COLUMN_NAME'' of
                   None \<Rightarrow> Inl KeyError
                 | Some name \<Rightarrow>
                     schema_loop b rest
                       (metadata(name \<mapsto> \<lparr>info = col_info, CONVERT = conv\<rparr>))))"

definition schema ::
  "env \<Rightarrow> sb \<Rightarrow> session \<Rightarrow> string \<Rightarrow> string option \<Rightarrow> error + (cell \<rightharpoonup> column)" where
  "schema E b s table libref =
     (case adodb s of
        None \<Rightarrow> Inl AttributeError
      | Some conn \<Rightarrow> schema_loop b (OpenSchema E (tablepath b table libref)) Map.empty)"

subsection \<open>The configuration object\<close>

text \<open>
  What \<^verbatim>\<open>SASConfigCOM.__init__\<close> reads from the configuration file: the dictionary of
  the named configuration, \<^verbatim>\<open>SAS_config_options\<close> and \<^verbatim>\<open>SAS_output_options\<close> (empty
  when the file does not define them), and the prompt function.
\<close>

record cfgfile =
  cfg :: "string \<rightharpoonup> pyval"
  SAS_config_options :: "string \<rightharpoonup> pyval"
  SAS_output_options :: "string \<rightharpoonup> pyval"
  prompt_fn :: pyval

definition dict_get :: "('k \<rightharpoonup> 'v) \<Rightarrow> 'k \<Rightarrow> 'v \<Rightarrow> 'v" where
  "dict_get d k dflt = (case d k of None \<Rightarrow> dflt | Some v \<Rightarrow> v)"

definition NO_OVERRIDE :: "string list" where
  "NO_OVERRIDE = [''kernel'', ''sb'']"

text \<open>The attributes as the first part of \<^verbatim>\<open>__init__\<close> sets them, before any override.\<close>

definition config_file_values :: "cfgfile \<Rightarrow> (string \<times> pyval) list \<Rightarrow> config" where
  "config_file_values f kwargs =
     Map.empty
       (''_kernel'' \<mapsto> dict_get (map_of kwargs) ''kernel'' PyNone,
        ''host'' \<mapsto> dict_get (cfg f) ''iomhost'' PyNone,
        ''port'' \<mapsto> dict_get (cfg f) ''iomport'' PyNone,
        ''user'' \<mapsto> dict_get (cfg f) ''omruser'' PyNone,
        ''pw'' \<mapsto> dict_get (cfg f) ''omrpw'' PyNone,
        ''class_id'' \<mapsto> dict_get (cfg f) ''class_id'' PyNone,
        ''provider'' \<mapsto> dict_get (cfg f) ''provider'' PyNone,
        ''encoding'' \<mapsto> dict_get (cfg f) ''encoding'' (PyStr ''utf-8''),
        ''max_rows'' \<mapsto> dict_get (cfg f) ''max_open_rows'' (PyInt 100),
        ''pagesize'' \<mapsto> dict_get (cfg f) ''pagesize'' (PyInt 55),
        ''cachesize'' \<mapsto> dict_get (cfg f) ''cachesize'' (PyInt 1),
        ''output'' \<mapsto> dict_get (SAS_output_options f) ''output'' (PyStr ''html5''),
        ''_lock'' \<mapsto> dict_get (SAS_config_options f) ''lock_down'' (PyBool True),
        ''_prompt'' \<mapsto> prompt_fn f)"

definition warning :: "string \<Rightarrow> string" where
  "warning attr = ''Param '' @ [CHR 0x27] @ attr @ [CHR 0x27]
     @ '' was ignored due to configuration restriction''"

text \<open>
  \<^verbatim>\<open>_try_override\<close>, on the attributes and the lines printed to \<^verbatim>\<open>stderr\<close> so far.
  The test is \<^verbatim>\<open>self._lock is False\<close>: any other value of the flag locks.
\<close>

definition try_override ::
  "config \<times> string list \<Rightarrow> string \<Rightarrow> pyval \<Rightarrow> error + config \<times> string list" where
  "try_override st attr value =
     (case st of (c, stderr) \<Rightarrow>
        (case c ''_lock'' of
           None \<Rightarrow> Inl AttributeError
         | Some lock \<Rightarrow>
             if lock = PyBool False then Inr (c(attr \<mapsto> value), stderr)
             else Inr (c, stderr @ [warning attr])))"

fun override_loop ::
  "config \<times> string list \<Rightarrow> (string \<times> pyval) list \<Rightarrow> error + config \<times> string list" where
  "override_loop st [] = Inr st"
| "override_loop st ((key, value) # rest) =
     (if key \<in> set NO_OVERRIDE then override_loop st rest
      else (case try_override st key value of
              Inl e \<Rightarrow> Inl e
            | Inr st' \<Rightarrow> override_loop st' rest))"

text \<open>
  \<^verbatim>\<open>SASConfigCOM.__init__\<close>: the keyword arguments are an ordered dictionary, here the
  list of its items. The result is the attributes of the new object and what was
  printed to \<^verbatim>\<open>stderr\<close>.
\<close>

definition SASConfigCOM_init ::
  "cfgfile \<Rightarrow> (string \<times> pyval) list \<Rightarrow> error + config \<times> string list" where
  "SASConfigCOM_init f kwargs =
     (case map_of kwargs ''sb'' of
        None \<Rightarrow> Inl KeyError
      | Some session \<Rightarrow> override_loop (config_file_values f kwargs, []) kwargs)"

subsection \<open>Opening the session\<close>

text \<open>
  The object factory is the broker: \<open>launched\<close> lists the calls of
  \<open>CreateObjectByServer\<close> it has served, \<open>opened\<close> the connection strings that ADODB
  connections were opened with.
\<close>

record broker =
  launched :: "(server_def \<times> pyval \<times> pyval) list"
  opened :: "string list"

definition PROTOCOL_COM :: int where "PROTOCOL_COM = 0"
definition PROTOCOL_IOM :: int where "PROTOCOL_IOM = 2"
definition STATE_CLOSED :: int where "STATE_CLOSED = 0"
definition STATE_OPEN :: int where "STATE_OPEN = 1"

definition bind_err :: "error + 'a \<Rightarrow> ('a \<Rightarrow> error + 'b) \<Rightarrow> error + 'b" where
  "bind_err x f = (case x of Inl e \<Rightarrow> Inl e | Inr v \<Rightarrow> f v)"

text \<open>The server definition and the credentials that \<^verbatim>\<open>_startsas\<close> derives.\<close>

definition server_for :: "config \<Rightarrow> error + server_def \<times> pyval \<times> pyval" where
  "server_for c =
     bind_err (cfg_get c ''host'') (\<lambda>host.
       if host = PyNone
       then Inr (\<lparr>MachineDNSName = PyStr ''127.0.0.1'', Port = PyInt 0,
                  Protocol = PROTOCOL_COM, ClassIdentifier = None\<rparr>, PyNone, PyNone)
       else
         bind_err (cfg_get c ''port'') (\<lambda>port.
         bind_err (cfg_get c ''class_id'') (\<lambda>class_id.
         bind_err (cfg_get c ''user'') (\<lambda>user.
         bind_err (cfg_get c ''pw'') (\<lambda>pw.
           Inr (\<lparr>MachineDNSName = host, Port = port,
                  Protocol = PROTOCOL_IOM, ClassIdentifier = Some class_id\<rparr>, user, pw))))))"

definition startsas ::
  "env \<Rightarrow> session \<times> broker \<Rightarrow> (error + string) \<times> session \<times> broker" where
  "startsas E st =
     (case st of (s, br) \<Rightarrow>
        (case workspace s of
           Some w \<Rightarrow> (Inr (UniqueIdentifier w), s, br)
         | None \<Rightarrow>
             (let s1 = s\<lparr>keeper := Some [],
                         adodb := Some \<lparr>State = STATE_CLOSED, data_source = ''''\<rparr>\<rparr>
              in case server_for (sascfg s1) of
                   Inl e \<Rightarrow> (Inl e, s1, br)
                 | Inr (server, user, password) \<Rightarrow>
                     (let w = CreateObjectByServer E (length (launched br)) server user password;
                          br1 = br\<lparr>launched := launched br @ [(server, user, password)]\<rparr>;
                          s2 = s1\<lparr>workspace := Some w,
                                  keeper := Some [(1, ''WorkspaceObject'', UniqueIdentifier w)]\<rparr>
                      in case cfg_get (sascfg s2) ''provider'' of
                           Inl e \<Rightarrow> (Inl e, s2, br1)
                         | Inr provider \<Rightarrow>
                             (let source = ''Provider='' @ py_str provider
                                    @ ''; Data Source=iom-id://'' @ UniqueIdentifier w
                              in (Inr (UniqueIdentifier w),
                                  s2\<lparr>adodb := Some \<lparr>State = STATE_OPEN, data_source = source\<rparr>\<rparr>,
                                  br1\<lparr>opened := opened br1 @ [source]\<rparr>))))))"

subsection \<open>File transfer\<close>

text \<open>
  The client's file system: the content of its files, its directories
  (\<^verbatim>\<open>os.path.isdir\<close>), and the paths at which \<^verbatim>\<open>open(path, 'wb')\<close> succeeds.
\<close>

record local_fs =
  lfiles :: "string \<rightharpoonup> bytes"
  ldirs :: "string set"
  creatable :: "string \<Rightarrow> bool"

text \<open>
  The last component of \<^verbatim>\<open>s.rpartition(sep)\<close>: what follows the last occurrence of
  \<open>sep\<close>, the whole of \<open>s\<close> when there is none; an empty separator raises
  \<^verbatim>\<open>ValueError\<close>.
\<close>

fun after_last :: "string \<Rightarrow> string \<Rightarrow> string option" where
  "after_last sep [] = None"
| "after_last sep (c # cs) =
     (case after_last sep cs of
        Some r \<Rightarrow> Some r
      | None \<Rightarrow>
          if take (length sep) (c # cs) = sep then Some (drop (length sep) (c # cs)) else None)"

definition rpartition_tail :: "string \<Rightarrow> string \<Rightarrow> error + string" where
  "rpartition_tail sep s =
     (if sep = [] then Inl ValueError
      else Inr (case after_last sep s of None \<Rightarrow> s | Some r \<Rightarrow> r))"

text \<open>
  \<^verbatim>\<open>upload\<close> and \<^verbatim>\<open>download\<close> return a dictionary with the keys \<^verbatim>\<open>Success\<close> and
  \<^verbatim>\<open>LOG\<close>.
\<close>

definition transfer_result :: "bool \<Rightarrow> string \<Rightarrow> (string \<times> pyval) list" where
  "transfer_result ok msg = [(''Success'', PyBool ok), (''LOG'', PyStr msg)]"

definition upload ::
  "env \<Rightarrow> sb \<Rightarrow> session \<Rightarrow> local_fs \<Rightarrow> string \<Rightarrow> string \<Rightarrow> bool \<Rightarrow> string
     \<Rightarrow> (error + (string \<times> pyval) list) \<times> session" where
  "upload E b s fs local remote overwrite permission =
     (let perms = (if permission \<noteq> [] then ''PERMISSION='' @ [CHR 0x27] @ permission @ [CHR 0x27]
                   else '''');
          valid = file_info b remote
      in case (if valid = Some [] then Inr (remote @ hostsep b @ os_path_basename E local)
               else if valid \<noteq> None \<and> overwrite = False
               then Inl (transfer_result False
                      (''File '' @ remote @ '' exists and overwrite was set to False. Upload was stopped.''))
               else Inr remote) of
           Inl stopped \<Rightarrow> (Inr stopped, s)
         | Inr remote_file \<Rightarrow>
             (case lfiles fs local of
                None \<Rightarrow> (Inl OSError, s)
              | Some content \<Rightarrow>
                  (case workspace s of
                     None \<Rightarrow> (Inl AttributeError, s)
                   | Some w \<Rightarrow>
                       (Inr (transfer_result True ''File successfully written using FileService.''),
                        s\<lparr>workspace :=
                            Some (w\<lparr>stream_writes :=
                                     stream_writes w @ [(remote_file, perms, content)]\<rparr>)\<rparr>))))"

text \<open>
  The local path that \<^verbatim>\<open>download\<close> writes to: inside \<open>local\<close>, under the last
  component of the remote path, when \<open>local\<close> is a directory; \<open>local\<close> itself
  otherwise.
\<close>

definition local_file_for :: "env \<Rightarrow> sb \<Rightarrow> local_fs \<Rightarrow> string \<Rightarrow> string \<Rightarrow> error + string" where
  "local_file_for E b fs local remote =
     (if local \<in> ldirs fs
      then bind_err (rpartition_tail (hostsep b) remote) (\<lambda>name. Inr (os_path_join E local name))
      else Inr local)"

text \<open>
  \<^verbatim>\<open>download\<close> does not change the session; it returns the client's file system.
  \<^verbatim>\<open>open(local_file, 'wb')\<close> truncates the file before \<^verbatim>\<open>_getfile\<close> is called.
\<close>

definition download ::
  "env \<Rightarrow> sb \<Rightarrow> session \<Rightarrow> local_fs \<Rightarrow> string \<Rightarrow> string \<Rightarrow> bool
     \<Rightarrow> (error + (string \<times> pyval) list) \<times> local_fs" where
  "download E b s fs local remote overwrite =
     (case file_info b remote of
        None \<Rightarrow> (Inr (transfer_result False (''File '' @ remote @ '' does not exist.'')), fs)
      | Some valid \<Rightarrow>
          if valid = [] then (Inr (transfer_result False (''File '' @ remote @ '' is a directory.'')), fs)
          else
            (case local_file_for E b fs local remote of
               Inl e \<Rightarrow> (Inl e, fs)
             | Inr local_file \<Rightarrow>
                 if \<not> creatable fs local_file then (Inl OSError, fs)
                 else
                   (let fs1 = fs\<lparr>lfiles := (lfiles fs)(local_file \<mapsto> [])\<rparr>
                    in case getfile_bytes s remote of
                         Inl e \<Rightarrow> (Inl e, fs1)
                       | Inr content \<Rightarrow>
                           (Inr (transfer_result True ''File successfully read using FileService.''),
                            fs1\<lparr>lfiles := (lfiles fs1)(local_file \<mapsto> content)\<rparr>))))"

subsection \<open>Observations and example values\<close>

text \<open>The program texts that the session's workspace has been handed, in order.\<close>

definition submitted :: "session \<Rightarrow> string list" where
  "submitted s =
     (case workspace s of
        None \<Rightarrow> []
      | Some w \<Rightarrow> concat (map (\<lambda>c. case c of Submit unit \<Rightarrow> [unit] | Reset \<Rightarrow> []) (ls_calls w)))"

text \<open>
  A small world on which the theorems below are instantiated: a remote host with the
  directory \<^verbatim>\<open>/saswork\<close> and the file \<^verbatim>\<open>/saswork/cars.csv\<close>, a configuration file
  that unlocks overrides, and a client with two files.
\<close>

definition example_engine :: engine where
  "example_engine =
     \<lparr>parser_error = False, accepted = [],
      log_chan = [''NOTE: done.'', ''''],
      lst_chan = [''The SAS System'', ''''],
      remote_files = (\<lambda>fname. if fname = ''/saswork/cars.csv''
                                then [''A,B'', ''\<newline>1,2'', ''''] else [])\<rparr>"

definition example_workspace :: workspace where
  "example_workspace =
     \<lparr>UniqueIdentifier = ''ws-0001'', ls_calls = [], eng = example_engine, stream_writes = []\<rparr>"

definition example_env :: env where
  "example_env =
     \<lparr>react = parser_engine (\<lambda>unit. True),
      decode = (\<lambda>encoding content. content),
      OpenSchema = (\<lambda>path. if path = ''work.t''
                           then [[(''COLUMN_NAME'', CStr ''d''), (''FORMAT_NAME'', CStr ''DATE'')],
                                 [(''COLUMN_NAME'', CStr ''t''), (''FORMAT_NAME'', CStr ''DATETIME'')],
                                 [(''COLUMN_NAME'', CStr ''x''), (''FORMAT_NAME'', CStr ''BEST'')]]
                           else []),
      CreateObjectByServer = (\<lambda>n server user password. example_workspace),
      os_path_basename = (\<lambda>path. case after_last ''/'' path of None \<Rightarrow> path | Some r \<Rightarrow> r),
      os_path_join = (\<lambda>dir name. dir @ ''/'' @ name)\<rparr>"

definition example_sb :: sb where
  "example_sb =
     \<lparr>workpath = ''/saswork/'', HTML_Style = ''HTMLBlue'', hostsep = ''/'',
      sas_date_fmts = [''DATE'', ''MMDDYY''], sas_datetime_fmts = [''DATETIME''],
      SAS_EPOCH = 715509 * 86400000000,
      file_info = (\<lambda>path. if path = ''/saswork'' then Some []
                          else if path = ''/saswork/cars.csv'' then Some [(''Size'', ''7'')]
                          else None),
      tablepath = (\<lambda>table libref. case libref of None \<Rightarrow> ''work.'' @ table
                                    | Some l \<Rightarrow> l @ ''.'' @ table)\<rparr>"

definition example_cfgfile :: cfgfile where
  "example_cfgfile =
     \<lparr>cfg = Map.empty(''iomhost'' \<mapsto> PyStr ''sas.example.com'', ''iomport'' \<mapsto> PyInt 8591,
                      ''provider'' \<mapsto> PyStr ''sas.iomprovider''),
      SAS_config_options = Map.empty(''lock_down'' \<mapsto> PyBool False),
      SAS_output_options = Map.empty,
      prompt_fn = PyObj ''<prompt>''\<rparr>"

definition example_session :: session where
  "example_session =
     \<lparr>sascfg = config_file_values example_cfgfile [(''sb'', PyObj ''<SASsession>'')],
      session_log = '''',
      workspace = Some example_workspace,
      keeper = Some [(1, ''WorkspaceObject'', ''ws-0001'')],
      adodb = Some \<lparr>State = STATE_OPEN,
                    data_source = ''Provider=sas.iomprovider; Data Source=iom-id://ws-0001''\<rparr>\<rparr>"

definition example_fs :: local_fs where
  "example_fs =
     \<lparr>lfiles = Map.empty(''/home/u/notes.txt'' \<mapsto> ''hello'', ''/home/u/dl/cars.csv'' \<mapsto> ''old''),
      ldirs = {''/home/u'', ''/home/u/dl''},
      creatable = (\<lambda>path. path \<notin> {''/home/u'', ''/home/u/dl''})\<rparr>"

section \<open>Properties\<close>

lemma drain_loop_eq:
  "drain_loop flushed result ch =
     (if flushed = [] then (result, ch)
      else (result @ concat (takeWhile (\<lambda>c. c \<noteq> []) ch),
            drop (Suc (length (takeWhile (\<lambda>c. c \<noteq> []) ch))) ch))"
proof (induction ch arbitrary: flushed result)
  case Nil
  show ?case
    by (simp add: drain_loop.simps [of flushed result "[]"] read_chunk_def
        drain_loop.simps [of "[]" _ "[]"])
next
  case (Cons c cs)
  show ?case
    by (simp add: drain_loop.simps [of flushed result "c # cs"] read_chunk_def Cons.IH)
qed

lemma drain_eq:
  "drain ch =
     (concat (takeWhile (\<lambda>c. c \<noteq> []) ch), drop (Suc (length (takeWhile (\<lambda>c. c \<noteq> []) ch))) ch)"
  by (cases ch) (simp_all add: drain_def read_chunk_def drain_loop_eq)

subsection \<open>C4: the stream pump\<close>

text \<open>
  C4. For every sequence of chunks that a read handle yields, the drain loop reads until
  the first empty chunk and returns the concatenation, in order, of the chunks before it
  (all of them non-empty), leaving in the handle what follows the empty chunk. This is
  what \<^verbatim>\<open>_getfile\<close> returns for the file's stream and what \<^verbatim>\<open>_getlog\<close> returns for
  the log channel and appends to the running log. A handle that yields \<^verbatim>\<open>ab\<close>,
  \<^verbatim>\<open>cd\<close> and the empty chunk drains to \<^verbatim>\<open>abcd\<close>; a handle that yields the empty chunk
  at once drains to the empty result after that one read.
\<close>

theorem stream_pump_drain:
  "drain ch =
     (concat (takeWhile (\<lambda>c. c \<noteq> []) ch),
      drop (Suc (length (takeWhile (\<lambda>c. c \<noteq> []) ch))) ch)
   \<and> fst (drain [''ab'', ''cd'', '''']) = ''abcd''
   \<and> drain ([] # rest) = ([], rest)
   \<and> getfile_bytes (s\<lparr>workspace := Some w\<rparr>) fname =
       Inr (concat (takeWhile (\<lambda>c. c \<noteq> []) (remote_files (eng w) fname)))
   \<and> fst (getlog (s\<lparr>workspace := Some w\<rparr>)) =
       Inr (concat (takeWhile (\<lambda>c. c \<noteq> []) (log_chan (eng w))))
   \<and> session_log (snd (getlog (s\<lparr>workspace := Some w\<rparr>))) =
       session_log s @ concat (takeWhile (\<lambda>c. c \<noteq> []) (log_chan (eng w)))"
  by (simp add: drain_eq getfile_bytes_def getlog_def)

end
